theory Spec2Isabelle
  imports Complex_Main "HOL-Library.Sublist"
begin

section \<open>JavaScript values\<close>

text \<open>
  The data processing utilities work on an array of row objects whose cells are strings,
  numbers, booleans, \<^verbatim>\<open>null\<close> or absent. A JavaScript number is modelled as an exact
  real extended with \<^verbatim>\<open>NaN\<close> and the two infinities: arithmetic is exact, so the rounding,
  overflow and underflow of IEEE-754 doubles and the sign of zero are not part of the model
  (a zero divisor is the positive zero, the only one this code can produce).
  A row is read only through \<^verbatim>\<open>row[column]\<close>, so it is the function from column
  names to cells that this read computes: \<^verbatim>\<open>undefined\<close> for a column that the row does
  not have.
\<close>

datatype jsnum = NaN | NegInf | Fin real | PosInf

datatype jsval = JUndefined | JNull | JBool bool | JNum jsnum | JStr string

type_synonym row = "string \<Rightarrow> jsval"

definition empty_row :: row where
  "empty_row = (\<lambda>c. JUndefined)"

subsection \<open>Number arithmetic\<close>

definition isNaN :: "jsnum \<Rightarrow> bool" where
  "isNaN x = (x = NaN)"

fun js_neg :: "jsnum \<Rightarrow> jsnum" where
  "js_neg NaN = NaN"
| "js_neg NegInf = PosInf"
| "js_neg PosInf = NegInf"
| "js_neg (Fin x) = Fin (- x)"

fun js_add :: "jsnum \<Rightarrow> jsnum \<Rightarrow> jsnum" where
  "js_add (Fin a) (Fin b) = Fin (a + b)"
| "js_add NaN _ = NaN"
| "js_add _ NaN = NaN"
| "js_add PosInf NegInf = NaN"
| "js_add NegInf PosInf = NaN"
| "js_add PosInf _ = PosInf"
| "js_add _ PosInf = PosInf"
| "js_add NegInf _ = NegInf"
| "js_add _ NegInf = NegInf"

definition js_sub :: "jsnum \<Rightarrow> jsnum \<Rightarrow> jsnum" where
  "js_sub a b = js_add a (js_neg b)"

text \<open>The sign of a number that is not \<^verbatim>\<open>NaN\<close>, and the infinity of a given sign
  (\<^verbatim>\<open>NaN\<close> for sign 0, as in \<^verbatim>\<open>Infinity * 0\<close> and \<^verbatim>\<open>0 / 0\<close>).\<close>

fun js_sign :: "jsnum \<Rightarrow> int" where
  "js_sign NaN = 0"
| "js_sign NegInf = - 1"
| "js_sign PosInf = 1"
| "js_sign (Fin x) = (if x < 0 then - 1 else if x = 0 then 0 else 1)"

definition inf_of_sign :: "int \<Rightarrow> jsnum" where
  "inf_of_sign s = (if s < 0 then NegInf else if s = 0 then NaN else PosInf)"

fun js_mul :: "jsnum \<Rightarrow> jsnum \<Rightarrow> jsnum" where
  "js_mul (Fin a) (Fin b) = Fin (a * b)"
| "js_mul NaN _ = NaN"
| "js_mul _ NaN = NaN"
| "js_mul a b = inf_of_sign (js_sign a * js_sign b)"

fun js_div :: "jsnum \<Rightarrow> jsnum \<Rightarrow> jsnum" where
  "js_div (Fin a) (Fin b) = (if b = 0 then inf_of_sign (js_sign (Fin a)) else Fin (a / b))"
| "js_div NaN _ = NaN"
| "js_div _ NaN = NaN"
| "js_div (Fin a) _ = Fin 0"
| "js_div a (Fin b) = inf_of_sign (js_sign a * (if b < 0 then - 1 else 1))"
| "js_div _ _ = NaN"

fun js_lt :: "jsnum \<Rightarrow> jsnum \<Rightarrow> bool" where
  "js_lt (Fin a) (Fin b) = (a < b)"
| "js_lt NaN _ = False"
| "js_lt _ NaN = False"
| "js_lt _ NegInf = False"
| "js_lt NegInf _ = True"
| "js_lt PosInf _ = False"
| "js_lt _ PosInf = True"

definition js_gt :: "jsnum \<Rightarrow> jsnum \<Rightarrow> bool" where
  "js_gt a b = js_lt b a"

text \<open>The operator \<^verbatim>\<open><=\<close>: false when either side is \<^verbatim>\<open>NaN\<close>.\<close>

definition js_le :: "jsnum \<Rightarrow> jsnum \<Rightarrow> bool" where
  "js_le a b = (\<not> isNaN a \<and> \<not> isNaN b \<and> \<not> js_lt b a)"

text \<open>\<^verbatim>\<open>Math.round\<close> rounds to the nearest integer, a tie going up.\<close>

fun Math_round :: "jsnum \<Rightarrow> jsnum" where
  "Math_round (Fin x) = Fin (of_int \<lfloor>x + 1 / 2\<rfloor>)"
| "Math_round x = x"




text \<open>\<^verbatim>\<open>Math.min(...xs)\<close> and \<^verbatim>\<open>Math.max(...xs)\<close>: \<^verbatim>\<open>Infinity\<close> and
  \<^verbatim>\<open>-Infinity\<close> on no arguments, \<^verbatim>\<open>NaN\<close> as soon as one argument is \<^verbatim>\<open>NaN\<close>.
  The limit that an engine puts on the number of arguments of a call is a resource limit,
  and not modelled.\<close>

definition min2 :: "jsnum \<Rightarrow> jsnum \<Rightarrow> jsnum" where
  "min2 a b = (if isNaN a \<or> isNaN b then NaN else if js_lt b a then b else a)"

definition max2 :: "jsnum \<Rightarrow> jsnum \<Rightarrow> jsnum" where
  "max2 a b = (if isNaN a \<or> isNaN b then NaN else if js_lt a b then b else a)"

definition Math_min :: "jsnum list \<Rightarrow> jsnum" where
  "Math_min xs = foldr min2 xs PosInf"

definition Math_max :: "jsnum list \<Rightarrow> jsnum" where
  "Math_max xs = foldr max2 xs NegInf"

text \<open>\<^verbatim>\<open>xs.reduce((a, b) => a + b, 0)\<close>.\<close>

definition reduce_add :: "jsnum list \<Rightarrow> jsnum" where
  "reduce_add xs = foldl js_add (Fin 0) xs"

text \<open>\<^verbatim>\<open>[...xs].sort((a, b) => a - b)\<close>: the sort is stable, and the comparator puts
  \<open>a\<close> after \<open>b\<close> exactly when \<open>a - b\<close> is positive (a \<^verbatim>\<open>NaN\<close> difference counts
  as 0). On numbers other than \<^verbatim>\<open>NaN\<close> the comparator is a consistent total preorder, so
  the result is the stable ascending sort, written here as an insertion sort.\<close>

fun insert_sorted :: "jsnum \<Rightarrow> jsnum list \<Rightarrow> jsnum list" where
  "insert_sorted x [] = [x]"
| "insert_sorted x (y # ys) =
     (if js_gt (js_sub x y) (Fin 0) then y # insert_sorted x ys else x # y # ys)"

definition sort_asc :: "jsnum list \<Rightarrow> jsnum list" where
  "sort_asc xs = foldr insert_sorted xs []"

subsection \<open>Strings to numbers\<close>

text \<open>Strings are lists of 8-bit characters; the white space recognised is the ASCII part
  of JavaScript's white space and line terminators.\<close>

definition is_ws :: "char \<Rightarrow> bool" where
  "is_ws c = (c \<in> set [CHR 0x09, CHR 0x0A, CHR 0x0B, CHR 0x0C, CHR 0x0D, CHR 0x20])"

definition digit_val :: "char \<Rightarrow> nat option" where
  "digit_val = map_of
     [(CHR ''0'', 0), (CHR ''1'', 1), (CHR ''2'', 2), (CHR ''3'', 3), (CHR ''4'', 4),
      (CHR ''5'', 5), (CHR ''6'', 6), (CHR ''7'', 7), (CHR ''8'', 8), (CHR ''9'', 9)]"

definition hex_val :: "char \<Rightarrow> nat option" where
  "hex_val = map_of
     [(CHR ''0'', 0), (CHR ''1'', 1), (CHR ''2'', 2), (CHR ''3'', 3), (CHR ''4'', 4),
      (CHR ''5'', 5), (CHR ''6'', 6), (CHR ''7'', 7), (CHR ''8'', 8), (CHR ''9'', 9),
      (CHR ''a'', 10), (CHR ''b'', 11), (CHR ''c'', 12), (CHR ''d'', 13), (CHR ''e'', 14),
      (CHR ''f'', 15), (CHR ''A'', 10), (CHR ''B'', 11), (CHR ''C'', 12), (CHR ''D'', 13),
      (CHR ''E'', 14), (CHR ''F'', 15)]"

definition is_digit :: "char \<Rightarrow> bool" where
  "is_digit c = (digit_val c \<noteq> None)"

text \<open>The value of a string of digits in a radix; a character that is no digit of the
  radix makes the result \<open>None\<close>.\<close>

fun radix_val :: "nat \<Rightarrow> nat \<Rightarrow> string \<Rightarrow> nat option" where
  "radix_val b acc [] = Some acc"
| "radix_val b acc (c # cs) =
     (case hex_val c of
        None \<Rightarrow> None
      | Some d \<Rightarrow> if d < b then radix_val b (b * acc + d) cs else None)"

definition digits_val :: "string \<Rightarrow> nat" where
  "digits_val ds = (case radix_val 10 0 ds of None \<Rightarrow> 0 | Some n \<Rightarrow> n)"

definition pow10 :: "int \<Rightarrow> real" where
  "pow10 e = (if 0 \<le> e then 10 ^ nat e else 1 / 10 ^ nat (- e))"

text \<open>The optional exponent part after a mantissa: the exponent and the rest of the
  string. An \<^verbatim>\<open>e\<close> that no digit follows is not part of the literal.\<close>

definition parse_exponent :: "string \<Rightarrow> int \<times> string" where
  "parse_exponent s =
     (case s of
        [] \<Rightarrow> (0, s)
      | c # t \<Rightarrow>
          if c = CHR ''e'' \<or> c = CHR ''E'' then
            (let (sg, u) =
                   (case t of
                      [] \<Rightarrow> (1, t)
                    | d # v \<Rightarrow> if d = CHR ''-'' then (- 1, v)
                               else if d = CHR ''+'' then (1, v) else (1, t));
                 ds = takeWhile is_digit u
             in if ds = [] then (0, s) else (sg * int (digits_val ds), dropWhile is_digit u))
          else (0, s))"

text \<open>The longest prefix of a string that is an unsigned decimal literal (digits, an optional
  fraction, an optional exponent, at least one digit in the mantissa): its value and the
  rest of the string.\<close>

definition unsigned_decimal :: "string \<Rightarrow> (real \<times> string) option" where
  "unsigned_decimal s =
     (let ip = takeWhile is_digit s;
          r1 = dropWhile is_digit s;
          (fp, r2) =
             (case r1 of
                [] \<Rightarrow> ([], r1)
              | c # u \<Rightarrow> if c = CHR ''.'' then (takeWhile is_digit u, dropWhile is_digit u)
                         else ([], r1))
      in if ip = [] \<and> fp = [] then None
         else (let (e, r3) = parse_exponent r2
               in Some ((real (digits_val ip) + real (digits_val fp) / 10 ^ length fp) * pow10 e,
                        r3)))"

text \<open>The longest prefix that is a signed decimal literal or a signed \<^verbatim>\<open>Infinity\<close>.\<close>

definition str_decimal :: "string \<Rightarrow> (jsnum \<times> string) option" where
  "str_decimal s =
     (let (neg, t) =
            (case s of
               [] \<Rightarrow> (False, s)
             | c # u \<Rightarrow> if c = CHR ''-'' then (True, u)
                        else if c = CHR ''+'' then (False, u) else (False, s))
      in if prefix ''Infinity'' t then Some (if neg then NegInf else PosInf, drop 8 t)
         else (case unsigned_decimal t of
                 None \<Rightarrow> None
               | Some (x, r) \<Rightarrow> Some (Fin (if neg then - x else x), r)))"

text \<open>\<^verbatim>\<open>parseFloat\<close> converts its argument to a string, skips leading white space and
  reads the longest decimal prefix; there is none in \<^verbatim>\<open>"undefined"\<close>, \<^verbatim>\<open>"null"\<close>,
  \<^verbatim>\<open>"true"\<close> and \<^verbatim>\<open>"false"\<close>. The string of a number reads back as that number.\<close>

definition parseFloat_str :: "string \<Rightarrow> jsnum" where
  "parseFloat_str s =
     (case str_decimal (dropWhile is_ws s) of None \<Rightarrow> NaN | Some (x, _) \<Rightarrow> x)"

fun parseFloat :: "jsval \<Rightarrow> jsnum" where
  "parseFloat (JNum x) = x"
| "parseFloat (JStr s) = parseFloat_str s"
| "parseFloat _ = NaN"

section \<open>calculateStatistics\<close>

record statistics =
  column :: string
  count :: nat
  mean :: jsnum
  median :: jsnum
  min_v :: jsnum
  max_v :: jsnum
  sum_v :: jsnum

text \<open>\<^verbatim>\<open>data.map(row => parseFloat(row[column])).filter(val => !isNaN(val))\<close>\<close>

definition numeric_values :: "row list \<Rightarrow> string \<Rightarrow> jsnum list" where
  "numeric_values data col =
     filter (\<lambda>val. \<not> isNaN val) (map (\<lambda>row. parseFloat (row col)) data)"

text \<open>The local constants \<^verbatim>\<open>mean\<close> and \<^verbatim>\<open>median\<close> of the source, before rounding.\<close>

definition mean_of :: "jsnum list \<Rightarrow> jsnum" where
  "mean_of vals = js_div (reduce_add vals) (Fin (real (length vals)))"

definition median_of :: "jsnum list \<Rightarrow> jsnum" where
  "median_of srt =
     (if length srt mod 2 = 0
      then js_div (js_add (srt ! (length srt div 2 - 1)) (srt ! (length srt div 2))) (Fin 2)
      else srt ! (length srt div 2))"

text \<open>\<^verbatim>\<open>Math.round(x * 100) / 100\<close>\<close>

definition round2 :: "jsnum \<Rightarrow> jsnum" where
  "round2 x = js_div (Math_round (js_mul x (Fin 100))) (Fin 100)"

definition calculateStatistics :: "row list \<Rightarrow> string \<Rightarrow> statistics option" where
  "calculateStatistics data col =
     (if data = [] then None
      else let vals = numeric_values data col
           in if vals = [] then None
              else let srt = sort_asc vals;
                       total = reduce_add vals
                   in Some \<lparr>column = col,
                            count = length vals,
                            mean = round2 (mean_of vals),
                            median = round2 (median_of srt),
                            min_v = Math_min vals,
                            max_v = Math_max vals,
                            sum_v = round2 total\<rparr>)"

section \<open>findAnomalies\<close>







section \<open>countMissingValues\<close>





section \<open>Values to strings\<close>

text \<open>
  Two functions of the JavaScript host are parameters of the model: the string of a finite
  number that is not an integer of magnitude below \<open>10\<^sup>2\<^sup>1\<close> (the shortest decimal that
  reads back as the same double, which exact arithmetic does not determine), and
  \<^verbatim>\<open>Date.parse\<close>, whose lenient parsing each engine defines for itself.
\<close>

record host =
  number_string :: "real \<Rightarrow> string"
  Date_parse :: "string \<Rightarrow> jsnum"

definition digit_char :: "nat \<Rightarrow> char" where
  "digit_char d = ''0123456789'' ! d"

fun nat_string :: "nat \<Rightarrow> string" where
  "nat_string n =
     (if n < 10 then [digit_char n] else nat_string (n div 10) @ [digit_char (n mod 10)])"

declare nat_string.simps [simp del]

definition Number_toString :: "host \<Rightarrow> jsnum \<Rightarrow> string" where
  "Number_toString h x =
     (case x of
        NaN \<Rightarrow> ''NaN''
      | PosInf \<Rightarrow> ''Infinity''
      | NegInf \<Rightarrow> ''-Infinity''
      | Fin r \<Rightarrow>
          if r = of_int \<lfloor>r\<rfloor> \<and> \<bar>r\<bar> < 10 ^ 21
          then (if r < 0 then CHR ''-'' # nat_string (nat (- \<lfloor>r\<rfloor>)) else nat_string (nat \<lfloor>r\<rfloor>))
          else number_string h r)"

text \<open>\<^verbatim>\<open>String(v)\<close>\<close>

fun ToString :: "host \<Rightarrow> jsval \<Rightarrow> string" where
  "ToString h JUndefined = ''undefined''"
| "ToString h JNull = ''null''"
| "ToString h (JBool b) = (if b then ''true'' else ''false'')"
| "ToString h (JNum x) = Number_toString h x"
| "ToString h (JStr s) = s"

text \<open>\<^verbatim>\<open>toLowerCase\<close>, on the ASCII letters.\<close>

definition lower_char :: "char \<Rightarrow> char" where
  "lower_char c =
     (case map_of (zip ''ABCDEFGHIJKLMNOPQRSTUVWXYZ'' ''abcdefghijklmnopqrstuvwxyz'') c of
        None \<Rightarrow> c
      | Some d \<Rightarrow> d)"

definition toLowerCase :: "string \<Rightarrow> string" where
  "toLowerCase s = map lower_char s"

text \<open>\<^verbatim>\<open>s.includes(t)\<close>: \<open>t\<close> occurs in \<open>s\<close> at some position.\<close>

fun str_includes :: "string \<Rightarrow> string \<Rightarrow> bool" where
  "str_includes [] t = (t = [])"
| "str_includes (c # cs) t = (prefix t (c # cs) \<or> str_includes cs t)"

section \<open>filterData\<close>

record filter_cond =
  f_column :: string
  f_operator :: string
  f_value :: jsval

definition filter_holds :: "host \<Rightarrow> row \<Rightarrow> filter_cond \<Rightarrow> bool" where
  "filter_holds h row f =
     (let v = row (f_column f);
          filterValue = f_value f
      in if f_operator f = ''equals'' then ToString h v = ToString h filterValue
         else if f_operator f = ''contains''
           then str_includes (toLowerCase (ToString h v)) (toLowerCase (ToString h filterValue))
         else if f_operator f = ''greater'' then js_gt (parseFloat v) (parseFloat filterValue)
         else if f_operator f = ''less'' then js_lt (parseFloat v) (parseFloat filterValue)
         else True)"

definition filterData :: "host \<Rightarrow> row list \<Rightarrow> filter_cond list \<Rightarrow> row list" where
  "filterData h data filters = filter (\<lambda>row. list_all (filter_holds h row) filters) data"

section \<open>groupBy\<close>

text \<open>
  The groups object is kept as an association list in the order in which its keys were
  created (JavaScript enumerates the keys that are array indices first; nothing below
  depends on the order). It starts as \<^verbatim>\<open>{}\<close>, so reading a key that it does not own finds the
  properties it inherits from \<^verbatim>\<open>Object.prototype\<close>: such a key is not created (the
  inherited value is truthy), and the call of \<^verbatim>\<open>push\<close> on the inherited value throws.
\<close>

datatype error = TypeError

definition inherited_keys :: "string list" where
  "inherited_keys =
     [''constructor'', ''hasOwnProperty'', ''isPrototypeOf'', ''propertyIsEnumerable'',
      ''toLocaleString'', ''toString'', ''valueOf'', ''__proto__'', ''__defineGetter__'',
      ''__defineSetter__'', ''__lookupGetter__'', ''__lookupSetter__'']"

fun truthy :: "jsval \<Rightarrow> bool" where
  "truthy JUndefined = False"
| "truthy JNull = False"
| "truthy (JBool b) = b"
| "truthy (JNum x) = (x \<noteq> NaN \<and> x \<noteq> Fin 0)"
| "truthy (JStr s) = (s \<noteq> [])"

text \<open>\<^verbatim>\<open>String(row[column] || 'null')\<close>\<close>

definition group_key :: "host \<Rightarrow> row \<Rightarrow> string \<Rightarrow> string" where
  "group_key h row col =
     ToString h (if truthy (row col) then row col else JStr ''null'')"

type_synonym groups = "(string \<times> row list) list"

definition push_row :: "string \<Rightarrow> row \<Rightarrow> groups \<Rightarrow> groups" where
  "push_row key row gs = map (\<lambda>(k, rs). if k = key then (k, rs @ [row]) else (k, rs)) gs"

definition group_row :: "host \<Rightarrow> string \<Rightarrow> groups \<Rightarrow> row \<Rightarrow> error + groups" where
  "group_row h col gs row =
     (let key = group_key h row col
      in case map_of gs key of
           Some rs \<Rightarrow> Inr (push_row key row gs)
         | None \<Rightarrow> if key \<in> set inherited_keys then Inl TypeError
                   else Inr (gs @ [(key, [row])]))"

fun group_rows :: "host \<Rightarrow> string \<Rightarrow> groups \<Rightarrow> row list \<Rightarrow> error + groups" where
  "group_rows h col gs [] = Inr gs"
| "group_rows h col gs (row # rest) =
     (case group_row h col gs row of
        Inl e \<Rightarrow> Inl e
      | Inr gs' \<Rightarrow> group_rows h col gs' rest)"

definition groupBy :: "host \<Rightarrow> row list \<Rightarrow> string \<Rightarrow> error + groups" where
  "groupBy h data col = group_rows h col [] data"

section \<open>aggregateGroups\<close>

record group_aggregate =
  group :: string
  g_value :: jsnum
  g_count :: nat

text \<open>The \<^verbatim>\<open>switch\<close> on the operation.\<close>

definition aggregated :: "string \<Rightarrow> jsnum list \<Rightarrow> jsnum" where
  "aggregated operation vals =
     (if operation = ''sum'' then reduce_add vals
      else if operation = ''avg'' \<or> operation = ''mean''
        then js_div (reduce_add vals) (Fin (real (length vals)))
      else if operation = ''count'' then Fin (real (length vals))
      else if operation = ''min'' then Math_min vals
      else if operation = ''max'' then Math_max vals
      else Fin (real (length vals)))"

definition aggregate_group :: "string \<Rightarrow> string \<Rightarrow> string \<times> row list \<Rightarrow> group_aggregate" where
  "aggregate_group aggregateColumn operation entry =
     (let vals = numeric_values (snd entry) aggregateColumn
      in \<lparr>group = fst entry,
          g_value = round2 (aggregated operation vals),
          g_count = length (snd entry)\<rparr>)"

text \<open>The argument is the list \<^verbatim>\<open>Object.entries(groups)\<close>.\<close>

definition aggregateGroups :: "groups \<Rightarrow> string \<Rightarrow> string \<Rightarrow> group_aggregate list" where
  "aggregateGroups gs aggregateColumn operation =
     map (aggregate_group aggregateColumn operation) gs"

section \<open>detectColumnTypes\<close>

text \<open>The global \<^verbatim>\<open>isFinite\<close> converts its argument to a number: a string is trimmed
  and must be a numeric literal as a whole (decimal, or hexadecimal, octal or binary with
  its prefix); the empty string is 0.\<close>

definition trim :: "string \<Rightarrow> string" where
  "trim s = rev (dropWhile is_ws (rev (dropWhile is_ws s)))"

definition radix_of :: "char \<Rightarrow> nat option" where
  "radix_of = map_of
     [(CHR ''x'', 16), (CHR ''X'', 16), (CHR ''o'', 8), (CHR ''O'', 8),
      (CHR ''b'', 2), (CHR ''B'', 2)]"

definition radix_literal :: "string \<Rightarrow> jsnum option" where
  "radix_literal t =
     (case t of
        z # x # ds \<Rightarrow>
          if z = CHR ''0'' then
            (case radix_of x of
               None \<Rightarrow> None
             | Some b \<Rightarrow>
                 Some (if ds = [] then NaN
                       else case radix_val b 0 ds of None \<Rightarrow> NaN | Some n \<Rightarrow> Fin (real n)))
          else None
      | _ \<Rightarrow> None)"

definition StringToNumber :: "string \<Rightarrow> jsnum" where
  "StringToNumber s =
     (let t = trim s
      in if t = [] then Fin 0
         else case radix_literal t of
                Some x \<Rightarrow> x
              | None \<Rightarrow> (case str_decimal t of
                           Some (x, []) \<Rightarrow> x
                         | _ \<Rightarrow> NaN))"

fun ToNumber :: "jsval \<Rightarrow> jsnum" where
  "ToNumber JUndefined = NaN"
| "ToNumber JNull = Fin 0"
| "ToNumber (JBool b) = Fin (if b then 1 else 0)"
| "ToNumber (JNum x) = x"
| "ToNumber (JStr s) = StringToNumber s"

definition isFinite :: "jsval \<Rightarrow> bool" where
  "isFinite v = (case ToNumber v of Fin _ \<Rightarrow> True | _ \<Rightarrow> False)"

text \<open>\<^verbatim>\<open>data.slice(0, 100).map(row => row[col]).filter(v => v != null && v !== '')\<close>\<close>

definition sample_of :: "row list \<Rightarrow> string \<Rightarrow> jsval list" where
  "sample_of data col =
     filter (\<lambda>v. v \<noteq> JNull \<and> v \<noteq> JUndefined \<and> v \<noteq> JStr '''')
       (map (\<lambda>row. row col) (take 100 data))"

definition isNumeric :: "jsval list \<Rightarrow> bool" where
  "isNumeric smp = list_all (\<lambda>v. \<not> isNaN (parseFloat v) \<and> isFinite v) smp"

definition isDate :: "host \<Rightarrow> jsval list \<Rightarrow> bool" where
  "isDate h smp = list_ex (\<lambda>v. \<not> isNaN (Date_parse h (ToString h v))) smp"

definition isBoolean :: "host \<Rightarrow> jsval list \<Rightarrow> bool" where
  "isBoolean h smp =
     list_all (\<lambda>v. toLowerCase (ToString h v)
                    \<in> set [''true'', ''false'', ''1'', ''0'', ''yes'', ''no'']) smp"

definition type_of_sample :: "host \<Rightarrow> jsval list \<Rightarrow> string" where
  "type_of_sample h smp =
     (if smp = [] then ''unknown''
      else if isNumeric smp then ''number''
      else if isDate h smp then ''date''
      else if isBoolean h smp then ''boolean''
      else ''string'')"

definition detectColumnTypes :: "host \<Rightarrow> row list \<Rightarrow> string list \<Rightarrow> (string \<rightharpoonup> string)" where
  "detectColumnTypes h data cols =
     fold (\<lambda>col types. types(col \<mapsto> type_of_sample h (sample_of data col))) cols Map.empty"

section \<open>Notions used in the statements\<close>

text \<open>A host for the examples: it recognises no string as a date, and prints nothing for
  a number that is not a small integer.\<close>

definition plain_host :: host where
  "plain_host = \<lparr>number_string = (\<lambda>x. ''''), Date_parse = (\<lambda>s. NaN)\<rparr>"


text \<open>The order of the numbers that are not \<^verbatim>\<open>NaN\<close>, written out: \<open>num_greater a b\<close> is
  false as soon as one side is \<^verbatim>\<open>NaN\<close>.\<close>

fun num_greater :: "jsnum \<Rightarrow> jsnum \<Rightarrow> bool" where
  "num_greater (Fin x) (Fin y) = (y < x)"
| "num_greater PosInf (Fin y) = True"
| "num_greater PosInf NegInf = True"
| "num_greater (Fin x) NegInf = True"
| "num_greater _ _ = False"

text \<open>The meaning of a filter as the specification states it: equality of the string
  representations, containment of the lower-cased strings (\<open>sublist\<close> is the contiguous
  sublist order of the library), numeric comparison of the parsed numbers that fails when a
  side does not parse, and no condition for any other operator.\<close>

definition satisfies :: "host \<Rightarrow> row \<Rightarrow> filter_cond \<Rightarrow> bool" where
  "satisfies h row f =
     (let s = ToString h (row (f_column f));
          t = ToString h (f_value f);
          a = parseFloat (row (f_column f));
          b = parseFloat (f_value f)
      in (f_operator f = ''equals'' \<longrightarrow> s = t) \<and>
         (f_operator f = ''contains'' \<longrightarrow> sublist (toLowerCase t) (toLowerCase s)) \<and>
         (f_operator f = ''greater'' \<longrightarrow> num_greater a b) \<and>
         (f_operator f = ''less'' \<longrightarrow> num_greater b a))"

text \<open>The sample of a column as the specification words it: the first 100 values of the
  column, over the whole dataset, that are neither null, absent nor empty.\<close>

definition first_values :: "row list \<Rightarrow> string \<Rightarrow> jsval list" where
  "first_values data col =
     take 100 (filter (\<lambda>v. v \<noteq> JNull \<and> v \<noteq> JUndefined \<and> v \<noteq> JStr '''')
                 (map (\<lambda>row. row col) data))"

section \<open>Auxiliary facts\<close>

lemmas parse_defs =
  parseFloat_str_def str_decimal_def unsigned_decimal_def parse_exponent_def is_ws_def
  is_digit_def digit_val_def digits_val_def hex_val_def pow10_def

lemmas num_defs =
  isNaN_def js_gt_def js_le_def js_sub_def inf_of_sign_def min2_def max2_def Math_min_def
  Math_max_def reduce_add_def round2_def mean_of_def median_of_def sort_asc_def

lemmas str_defs =
  Number_toString_def nat_string.simps digit_char_def toLowerCase_def lower_char_def

lemmas tonum_defs =
  isFinite_def StringToNumber_def trim_def radix_literal_def radix_of_def

lemma numeric_values_empty_iff:
  "numeric_values data col = [] \<longleftrightarrow> (\<forall>row\<in>set data. isNaN (parseFloat (row col)))"
  by (auto simp: numeric_values_def filter_empty_conv)

lemma str_includes_sublist: "str_includes s t \<longleftrightarrow> sublist t s"
  by (induction s) (auto simp: sublist_Cons_right)

lemma fold_upd_lookup:
  "fold (\<lambda>c m. m(c \<mapsto> f c)) cols m0 k = (if k \<in> set cols then Some (f k) else m0 k)"
  by (induction cols arbitrary: m0) auto


lemma js_lt_num_greater: "js_lt a b = num_greater b a"
  by (cases a; cases b) auto

subsection \<open>Finite numbers\<close>
















subsection \<open>Identical values\<close>










lemma filter_holds_satisfies: "filter_holds h row f = satisfies h row f"
  by (auto simp: filter_holds_def satisfies_def Let_def str_includes_sublist js_gt_def
      js_lt_num_greater)

section \<open>Properties of calculateStatistics\<close>

text \<open>
  Claim C9. \<open>calculateStatistics\<close> returns no result exactly when the dataset is empty or no
  row's value for the column parses as a number; in every other case it returns a summary,
  for the requested column, that counts the parsed values (at least one). The function has
  no other outcome: it raises nothing.
\<close>

theorem calculateStatistics_absent_iff:
  "(calculateStatistics data col = None \<longleftrightarrow>
      data = [] \<or> (\<forall>row\<in>set data. isNaN (parseFloat (row col)))) \<and>
   (data \<noteq> [] \<and> (\<exists>row\<in>set data. \<not> isNaN (parseFloat (row col))) \<longrightarrow>
      (\<exists>s. calculateStatistics data col = Some s \<and> column s = col \<and>
           count s = length (numeric_values data col) \<and> 0 < count s))"
  by (auto simp: calculateStatistics_def Let_def numeric_values_empty_iff)

theorem calculateStatistics_absent_iff_witness:
  "calculateStatistics [empty_row(''x'' := JStr ''abc'')] ''x'' = None \<and>
   calculateStatistics [] ''x'' = None \<and>
   calculateStatistics [empty_row(''x'' := JStr ''abc''), empty_row(''x'' := JStr ''4.5kg'')] ''x''
     \<noteq> None"
  using calculateStatistics_absent_iff [of "[empty_row(''x'' := JStr ''abc'')]" "''x''"]
    calculateStatistics_absent_iff [of "[]" "''x''"]
    calculateStatistics_absent_iff
      [of "[empty_row(''x'' := JStr ''abc''), empty_row(''x'' := JStr ''4.5kg'')]" "''x''"]
  by (simp add: empty_row_def isNaN_def parse_defs)




section \<open>Properties of findAnomalies\<close>



section \<open>Properties of countMissingValues\<close>



section \<open>Properties of filterData\<close>

text \<open>
  Claim C5. \<open>filterData\<close> keeps exactly the rows that satisfy every filter of the list,
  with the meaning of a filter that the specification states (\<open>satisfies\<close>); with the
  filter \<^verbatim>\<open>equals 5\<close> on column \<^verbatim>\<open>x\<close>, the row holding the string \<^verbatim>\<open>'5'\<close> and the row
  holding the number 5 are both kept.
\<close>

theorem filterData_operators:
  "filterData h data filters = filter (\<lambda>row. \<forall>f\<in>set filters. satisfies h row f) data \<and>
   filterData h [empty_row(''x'' := JStr ''5''), empty_row(''x'' := JNum (Fin 5))]
     [\<lparr>f_column = ''x'', f_operator = ''equals'', f_value = JNum (Fin 5)\<rparr>] =
     [empty_row(''x'' := JStr ''5''), empty_row(''x'' := JNum (Fin 5))]"
  by (simp add: filterData_def list_all_iff filter_holds_satisfies satisfies_def
      Number_toString_def nat_string.simps digit_char_def)

theorem filterData_operators_witness:
  "filterData plain_host
     [empty_row(''name'' := JStr ''Anna'', ''age'' := JStr ''41''),
      empty_row(''name'' := JStr ''Ben'', ''age'' := JNum (Fin 17)),
      empty_row(''name'' := JStr ''Joanne'')]
     [\<lparr>f_column = ''name'', f_operator = ''contains'', f_value = JStr ''AN''\<rparr>,
      \<lparr>f_column = ''age'', f_operator = ''greater'', f_value = JStr ''18''\<rparr>,
      \<lparr>f_column = ''age'', f_operator = ''between'', f_value = JNull\<rparr>] =
   [empty_row(''name'' := JStr ''Anna'', ''age'' := JStr ''41'')]"
  using filterData_operators [of plain_host
     "[empty_row(''name'' := JStr ''Anna'', ''age'' := JStr ''41''),
       empty_row(''name'' := JStr ''Ben'', ''age'' := JNum (Fin 17)),
       empty_row(''name'' := JStr ''Joanne'')]"
     "[\<lparr>f_column = ''name'', f_operator = ''contains'', f_value = JStr ''AN''\<rparr>,
       \<lparr>f_column = ''age'', f_operator = ''greater'', f_value = JStr ''18''\<rparr>,
       \<lparr>f_column = ''age'', f_operator = ''between'', f_value = JNull\<rparr>]"]
  by (simp add: satisfies_def empty_row_def str_defs parse_defs sublist_code)

text \<open>
  Claim C10. The result of \<open>filterData\<close> is a subsequence of the dataset: its rows are rows
  of the input, in the input's order, none more often than the input has it. With no filter
  every row is kept.
\<close>

theorem filterData_subseq:
  "subseq (filterData h data filters) data \<and> filterData h data [] = data"
  by (simp add: filterData_def)

section \<open>Properties of groupBy\<close>

text \<open>
  Claim C2 fails on the code: the key is computed from \<^verbatim>\<open>row[column] || 'null'\<close>, and the
  number 0, the empty string and \<^verbatim>\<open>false\<close> are falsy, so their rows join the rows of null
  and absent values under the key \<^verbatim>\<open>null\<close> and not under \<^verbatim>\<open>0\<close>, the empty key and
  \<^verbatim>\<open>false\<close>, their own string representations.
\<close>

theorem groupBy_falsy_values:
  "groupBy h
     [empty_row(''g'' := JNum (Fin 0)), empty_row(''g'' := JStr ''''),
      empty_row(''g'' := JBool False), empty_row(''g'' := JNull), empty_row] ''g'' =
     Inr [(''null'',
           [empty_row(''g'' := JNum (Fin 0)), empty_row(''g'' := JStr ''''),
            empty_row(''g'' := JBool False), empty_row(''g'' := JNull), empty_row])] \<and>
   ToString h (JNum (Fin 0)) = ''0'' \<and> ToString h (JStr '''') = '''' \<and>
   ToString h (JBool False) = ''false''"
  by (simp add: groupBy_def group_row_def group_key_def push_row_def empty_row_def
      inherited_keys_def Number_toString_def nat_string.simps digit_char_def)

section \<open>Properties of aggregateGroups\<close>

text \<open>
  Claim C4, as stated, fails: for a group without a parseable value the sum is 0, the
  minimum is \<^verbatim>\<open>Infinity\<close> and the maximum is \<^verbatim>\<open>-Infinity\<close>, none of them \<^verbatim>\<open>NaN\<close>.
\<close>

theorem aggregateGroups_empty_group_counterexample:
  "map g_value (aggregateGroups [(''a'', [empty_row(''v'' := JStr ''n/a'')])] ''v'' ''sum'')
     = [Fin 0] \<and>
   map g_value (aggregateGroups [(''a'', [empty_row(''v'' := JStr ''n/a'')])] ''v'' ''min'')
     = [PosInf] \<and>
   map g_value (aggregateGroups [(''a'', [empty_row(''v'' := JStr ''n/a'')])] ''v'' ''max'')
     = [NegInf]"
  by (simp add: aggregateGroups_def aggregate_group_def aggregated_def numeric_values_def
      empty_row_def num_defs parse_defs)

text \<open>
  Claim C4, amended. For a group in which no row's value for the aggregate column parses as
  a number, \<open>aggregateGroups\<close> reports \<^verbatim>\<open>NaN\<close> for the operations \<^verbatim>\<open>avg\<close> and \<^verbatim>\<open>mean\<close>
  only; it reports 0 for \<^verbatim>\<open>sum\<close> and \<^verbatim>\<open>count\<close>, \<^verbatim>\<open>Infinity\<close> for \<^verbatim>\<open>min\<close> and
  \<^verbatim>\<open>-Infinity\<close> for \<^verbatim>\<open>max\<close>, together with the group's key and its number of rows.
\<close>

theorem aggregateGroups_empty_group:
  assumes "i < length gs" and "\<forall>row\<in>set (snd (gs ! i)). isNaN (parseFloat (row col))"
  shows "g_value (aggregateGroups gs col ''sum'' ! i) = Fin 0 \<and>
         g_value (aggregateGroups gs col ''avg'' ! i) = NaN \<and>
         g_value (aggregateGroups gs col ''mean'' ! i) = NaN \<and>
         g_value (aggregateGroups gs col ''min'' ! i) = PosInf \<and>
         g_value (aggregateGroups gs col ''max'' ! i) = NegInf \<and>
         g_value (aggregateGroups gs col ''count'' ! i) = Fin 0 \<and>
         group (aggregateGroups gs col operation ! i) = fst (gs ! i) \<and>
         g_count (aggregateGroups gs col operation ! i) = length (snd (gs ! i))"
proof -
  have "numeric_values (snd (gs ! i)) col = []"
    using assms(2) by (simp add: numeric_values_empty_iff)
  then show ?thesis
    using assms(1)
    by (simp add: aggregateGroups_def aggregate_group_def aggregated_def num_defs)
qed

theorem aggregateGroups_empty_group_witness:
  "map g_value
     (aggregateGroups
        [(''a'', [empty_row(''v'' := JNum (Fin 2))]),
         (''b'', [empty_row(''v'' := JStr ''n/a''), empty_row])] ''v'' ''avg'')
     = [Fin 2, NaN]"
  using aggregateGroups_empty_group
    [of 1 "[(''a'', [empty_row(''v'' := JNum (Fin 2))]),
            (''b'', [empty_row(''v'' := JStr ''n/a''), empty_row])]" "''v''" "''avg''"]
  by (simp add: aggregateGroups_def aggregate_group_def aggregated_def numeric_values_def
      empty_row_def num_defs parse_defs)

section \<open>Properties of detectColumnTypes\<close>

text \<open>
  Claim C8. The checks are applied in the order number, date, boolean, string: a sample
  that passes the numeric check is tagged \<^verbatim>\<open>number\<close> whatever the other checks say, one
  that fails it and holds a date is tagged \<^verbatim>\<open>date\<close>, one that fails both and passes the
  boolean check is tagged \<^verbatim>\<open>boolean\<close>, and every other sample \<^verbatim>\<open>string\<close>. The column
  with the values \<^verbatim>\<open>'1'\<close>, \<^verbatim>\<open>'0'\<close>, \<^verbatim>\<open>'1'\<close> passes the boolean check and is tagged
  \<^verbatim>\<open>number\<close>.
\<close>

theorem detectColumnTypes_precedence:
  "(col \<in> set cols \<and> sample_of data col \<noteq> [] \<and> isNumeric (sample_of data col) \<longrightarrow>
      detectColumnTypes h data cols col = Some ''number'') \<and>
   (col \<in> set cols \<and> sample_of data col \<noteq> [] \<and> \<not> isNumeric (sample_of data col) \<and>
    isDate h (sample_of data col) \<longrightarrow> detectColumnTypes h data cols col = Some ''date'') \<and>
   (col \<in> set cols \<and> sample_of data col \<noteq> [] \<and> \<not> isNumeric (sample_of data col) \<and>
    \<not> isDate h (sample_of data col) \<and> isBoolean h (sample_of data col) \<longrightarrow>
      detectColumnTypes h data cols col = Some ''boolean'') \<and>
   (col \<in> set cols \<and> sample_of data col \<noteq> [] \<and> \<not> isNumeric (sample_of data col) \<and>
    \<not> isDate h (sample_of data col) \<and> \<not> isBoolean h (sample_of data col) \<longrightarrow>
      detectColumnTypes h data cols col = Some ''string'') \<and>
   sample_of
     [empty_row(''a'' := JStr ''1''), empty_row(''a'' := JStr ''0''),
      empty_row(''a'' := JStr ''1'')] ''a''
     = [JStr ''1'', JStr ''0'', JStr ''1''] \<and>
   isBoolean h [JStr ''1'', JStr ''0'', JStr ''1''] \<and>
   detectColumnTypes h
     [empty_row(''a'' := JStr ''1''), empty_row(''a'' := JStr ''0''),
      empty_row(''a'' := JStr ''1'')] [''a''] ''a''
     = Some ''number''"
proof -
  have ex: "sample_of
     [empty_row(''a'' := JStr ''1''), empty_row(''a'' := JStr ''0''),
      empty_row(''a'' := JStr ''1'')] ''a''
     = [JStr ''1'', JStr ''0'', JStr ''1'']"
    by (simp add: sample_of_def)
  have num: "isNumeric [JStr ''1'', JStr ''0'', JStr ''1'']"
    by (simp add: isNumeric_def tonum_defs isNaN_def parse_defs)
  have bool: "isBoolean h [JStr ''1'', JStr ''0'', JStr ''1'']"
    by (simp add: isBoolean_def toLowerCase_def lower_char_def)
  show ?thesis
    using bool by (simp add: detectColumnTypes_def fold_upd_lookup type_of_sample_def ex num)
qed

theorem detectColumnTypes_precedence_witness:
  "detectColumnTypes plain_host
     [empty_row(''n'' := JStr ''0'', ''b'' := JStr ''yes'', ''s'' := JStr ''abc''),
      empty_row(''n'' := JNum (Fin 1), ''b'' := JStr ''No'', ''s'' := JStr ''12kg'')]
     [''n'', ''b'', ''s''] ''n'' = Some ''number'' \<and>
   detectColumnTypes plain_host
     [empty_row(''n'' := JStr ''0'', ''b'' := JStr ''yes'', ''s'' := JStr ''abc''),
      empty_row(''n'' := JNum (Fin 1), ''b'' := JStr ''No'', ''s'' := JStr ''12kg'')]
     [''n'', ''b'', ''s''] ''b'' = Some ''boolean'' \<and>
   detectColumnTypes plain_host
     [empty_row(''n'' := JStr ''0'', ''b'' := JStr ''yes'', ''s'' := JStr ''abc''),
      empty_row(''n'' := JNum (Fin 1), ''b'' := JStr ''No'', ''s'' := JStr ''12kg'')]
     [''n'', ''b'', ''s''] ''s'' = Some ''string''"
proof -
  let ?d = "[empty_row(''n'' := JStr ''0'', ''b'' := JStr ''yes'', ''s'' := JStr ''abc''),
             empty_row(''n'' := JNum (Fin 1), ''b'' := JStr ''No'', ''s'' := JStr ''12kg'')]"
  have n: "sample_of ?d ''n'' = [JStr ''0'', JNum (Fin 1)]"
    and b: "sample_of ?d ''b'' = [JStr ''yes'', JStr ''No'']"
    and s: "sample_of ?d ''s'' = [JStr ''abc'', JStr ''12kg'']"
    by (simp_all add: sample_of_def empty_row_def)
  have "isNumeric [JStr ''0'', JNum (Fin 1)]"
    by (simp add: isNumeric_def tonum_defs isNaN_def parse_defs)
  then have "detectColumnTypes plain_host ?d [''n'', ''b'', ''s''] ''n'' = Some ''number''"
    using detectColumnTypes_precedence [of "''n''" "[''n'', ''b'', ''s'']" ?d plain_host]
    by (simp add: n)
  moreover have "\<not> isNumeric [JStr ''yes'', JStr ''No'']"
    "\<not> isDate plain_host [JStr ''yes'', JStr ''No'']"
    "isBoolean plain_host [JStr ''yes'', JStr ''No'']"
    by (simp_all add: isNumeric_def isDate_def isBoolean_def plain_host_def isNaN_def
        parse_defs toLowerCase_def lower_char_def)
  then have "detectColumnTypes plain_host ?d [''n'', ''b'', ''s''] ''b'' = Some ''boolean''"
    using detectColumnTypes_precedence [of "''b''" "[''n'', ''b'', ''s'']" ?d plain_host]
    by (simp add: b)
  moreover have "\<not> isNumeric [JStr ''abc'', JStr ''12kg'']"
    "\<not> isDate plain_host [JStr ''abc'', JStr ''12kg'']"
    "\<not> isBoolean plain_host [JStr ''abc'', JStr ''12kg'']"
    by (simp_all add: isNumeric_def isDate_def isBoolean_def plain_host_def isNaN_def
        parse_defs toLowerCase_def lower_char_def)
  then have "detectColumnTypes plain_host ?d [''n'', ''b'', ''s''] ''s'' = Some ''string''"
    using detectColumnTypes_precedence [of "''s''" "[''n'', ''b'', ''s'']" ?d plain_host]
    by (simp add: s)
  ultimately show ?thesis
    by (intro conjI)
qed

text \<open>
  Claim C3, as stated, fails: the sample is cut from the first 100 rows before the null and
  empty values are removed. In a dataset whose first 100 rows have no value for the column
  and whose row 101 holds \<^verbatim>\<open>'5'\<close>, the first non-empty values of the column are that one
  value, which is numeric, and the column is tagged \<^verbatim>\<open>unknown\<close>.
\<close>

theorem detectColumnTypes_late_values_counterexample:
  "detectColumnTypes plain_host
     (replicate 100 empty_row @ [empty_row(''a'' := JStr ''5'')]) [''a''] ''a''
     = Some ''unknown'' \<and>
   first_values (replicate 100 empty_row @ [empty_row(''a'' := JStr ''5'')]) ''a''
     = [JStr ''5''] \<and>
   type_of_sample plain_host [JStr ''5''] = ''number''"
  by (simp add: detectColumnTypes_def sample_of_def first_values_def type_of_sample_def
      empty_row_def isNumeric_def tonum_defs isNaN_def parse_defs)

text \<open>
  Claim C3, amended. The tag of a column is determined by the first 100 rows of the dataset,
  and there by the values of the column that are neither null, absent nor empty, in row
  order: the rows after the first 100 are not read, two datasets with the same such values
  get the same tag, and a column with no such value in the first 100 rows is tagged
  \<^verbatim>\<open>unknown\<close> whatever the later rows hold.
\<close>

theorem detectColumnTypes_first_rows:
  "detectColumnTypes h data cols = detectColumnTypes h (take 100 data) cols \<and>
   (filter (\<lambda>v. v \<noteq> JNull \<and> v \<noteq> JUndefined \<and> v \<noteq> JStr '''')
      (map (\<lambda>row. row col) (take 100 data)) =
    filter (\<lambda>v. v \<noteq> JNull \<and> v \<noteq> JUndefined \<and> v \<noteq> JStr '''')
      (map (\<lambda>row. row col) (take 100 data'))
      \<longrightarrow> detectColumnTypes h data cols col = detectColumnTypes h data' cols col) \<and>
   (col \<in> set cols \<and> (\<forall>row\<in>set (take 100 data). row col \<in> {JNull, JUndefined, JStr ''''})
      \<longrightarrow> detectColumnTypes h data cols col = Some ''unknown'')"
proof -
  have "sample_of data c = sample_of (take 100 data) c" for c
    by (simp add: sample_of_def)
  then have a: "detectColumnTypes h data cols = detectColumnTypes h (take 100 data) cols"
    by (simp add: detectColumnTypes_def)
  have c: "sample_of data col = []"
    if "\<forall>row\<in>set (take 100 data). row col \<in> {JNull, JUndefined, JStr ''''}"
    using that by (auto simp: sample_of_def filter_empty_conv)
  show ?thesis
    using c
    by (auto simp: a detectColumnTypes_def fold_upd_lookup sample_of_def type_of_sample_def)
qed

theorem detectColumnTypes_first_rows_witness:
  "detectColumnTypes plain_host
     (replicate 100 empty_row @ [empty_row(''a'' := JStr ''5'')]) [''a'']
     = detectColumnTypes plain_host
         (take 100 (replicate 100 empty_row @ [empty_row(''a'' := JStr ''5'')])) [''a''] \<and>
   detectColumnTypes plain_host
     (replicate 100 empty_row @ [empty_row(''a'' := JStr ''5'')]) [''a''] ''a''
     = detectColumnTypes plain_host
         (replicate 100 empty_row @ [empty_row(''a'' := JStr ''x'')]) [''a''] ''a'' \<and>
   detectColumnTypes plain_host
     (replicate 100 empty_row @ [empty_row(''a'' := JStr ''5'')]) [''a''] ''a''
     = Some ''unknown''"
proof -
  let ?d = "replicate 100 empty_row @ [empty_row(''a'' := JStr ''5'')]"
  let ?d' = "replicate 100 empty_row @ [empty_row(''a'' := JStr ''x'')]"
  have same: "take 100 ?d = take 100 ?d'"
    by simp
  have empty: "\<forall>row\<in>set (take 100 ?d). row ''a'' \<in> {JNull, JUndefined, JStr ''''}"
    by (simp add: empty_row_def)
  have mem: "''a'' \<in> set [''a'']"
    by simp
  note first = detectColumnTypes_first_rows [of plain_host ?d "[''a'']" "''a''" ?d']
  have "detectColumnTypes plain_host ?d [''a'']
          = detectColumnTypes plain_host (take 100 ?d) [''a'']"
    using first by (rule conjunct1)
  moreover have "detectColumnTypes plain_host ?d [''a''] ''a''
          = detectColumnTypes plain_host ?d' [''a''] ''a''"
    using first same by metis
  moreover have "detectColumnTypes plain_host ?d [''a''] ''a'' = Some ''unknown''"
    using first empty mem by blast
  ultimately show ?thesis
    by (intro conjI)
qed

end
